theory Spec2Isabelle
  imports Complex_Main "HOL-Library.Word" "HOL-Library.Sublist"
begin

unbundle bit_operations_syntax

chapter \<open>pgmetrics: the human-readable report (cmd/pgmetrics/report.go)\<close>

text \<open>
  The report renderer of pgmetrics turns a collected snapshot (\<open>pgmetrics.Model\<close>) into
  text. This theory embeds the functions of \<open>report.go\<close> that derive values (LSN
  arithmetic, ratios, version gates), lay out tables and assemble the report, and proves
  properties of them.

  Go's \<open>int64\<close> and \<open>uint64\<close> are \<open>64 word\<close>: \<open>+\<close>, \<open>-\<close>, \<open>*\<close> wrap, \<open>sint\<close> reads
  the signed value, the conversions \<open>int64(x)\<close> and \<open>uint64(x)\<close> keep the bits. Strings
  are byte lists, \<open>float64\<close> values are the reals they denote (rounding is not
  modelled).

  Functions of the Go standard library and of go-humanize that the source calls are
  either written out from their documented behaviour (number parsing, decimal printing)
  or gathered in a record \<open>runtime\<close> that every renderer takes as its first argument:
  the wall clock, relative and absolute time formatting, byte humanisation, float
  formatting and the rune count of \<open>fmt\<close>'s padding. The properties below hold for
  every such record; a reference instance is used for concrete examples.
\<close>

section \<open>Numbers and strings of the Go runtime\<close>

type_synonym int64 = "64 word"
type_synonym uint64 = "64 word"

datatype NumError = ErrSyntax | ErrRange

text \<open>\<open>strconv.lower\<close>: \<open>c | ('x' - 'X')\<close>.\<close>

definition lower :: "8 word \<Rightarrow> 8 word" where
  "lower c = c OR 32"

text \<open>
  The digit switch of \<open>strconv.ParseUint\<close> (the underscore case needs base 0 and is
  never taken here): \<open>'0'..'9'\<close> count 0 to 9, a letter of either case counts from 10.
\<close>

definition digit :: "char \<Rightarrow> 8 word option" where
  "digit ch = (let c = (of_char ch :: 8 word) in
     if 48 \<le> c \<and> c \<le> 57 then Some (c - 48)
     else if 97 \<le> lower c \<and> lower c \<le> 122 then Some (lower c - 97 + 10)
     else None)"

text \<open>
  The loop of \<open>strconv.ParseUint(s, base, 64)\<close> for an explicit base: a byte that is no
  digit of the base is a syntax error; \<open>n\<close> at or above the cutoff
  \<open>maxUint64/base + 1\<close>, or a wrapped sum, is a range error.
\<close>

fun ParseUint_loop :: "uint64 \<Rightarrow> string \<Rightarrow> uint64 \<Rightarrow> NumError + uint64" where
  "ParseUint_loop base [] n = Inr n"
| "ParseUint_loop base (c # cs) n =
     (case digit c of
        None \<Rightarrow> Inl ErrSyntax
      | Some d \<Rightarrow>
          if ucast base \<le> d then Inl ErrSyntax
          else if (- 1) div base + 1 \<le> n then Inl ErrRange
          else (let n' = n * base; n1 = n' + ucast d
                in if n1 < n' then Inl ErrRange else ParseUint_loop base cs n1))"

definition ParseUint :: "string \<Rightarrow> uint64 \<Rightarrow> NumError + uint64" where
  "ParseUint s base = (if s = [] then Inl ErrSyntax else ParseUint_loop base s 0)"

text \<open>
  \<open>strconv.ParseInt(s, 10, 0)\<close>, which \<open>strconv.Atoi\<close> agrees with on every input:
  an optional sign, then \<open>ParseUint\<close>, then the check against \<open>1 << 63\<close>.
\<close>

definition Atoi :: "string \<Rightarrow> NumError + int" where
  "Atoi s =
     (if s = [] then Inl ErrSyntax
      else
        (let neg = (hd s = CHR ''-'');
             s' = (if hd s = CHR ''+'' \<or> hd s = CHR ''-'' then tl s else s)
         in case ParseUint s' 10 of
              Inl e \<Rightarrow> Inl e
            | Inr un \<Rightarrow>
                if \<not> neg \<and> 2 ^ 63 \<le> un then Inl ErrRange
                else if neg \<and> 2 ^ 63 < un then Inl ErrRange
                else Inr (if neg then - uint un else uint un)))"

text \<open>Decimal printing, as \<open>%d\<close> and \<open>strconv.Itoa\<close> do it.\<close>

function digits :: "int \<Rightarrow> string" where
  "digits n =
     (if n < 10 then [char_of (48 + n)] else digits (n div 10) @ [char_of (48 + n mod 10)])"
  by pat_completeness auto
termination
  by (relation "measure nat") auto

declare digits.simps [simp del]

definition Itoa :: "int \<Rightarrow> string" where
  "Itoa i = (if i < 0 then ''-'' @ digits (- i) else digits i)"

text \<open>\<open>strings.IndexByte\<close>: the index of the first occurrence, \<open>-1\<close> when there is none.\<close>

definition IndexByte :: "string \<Rightarrow> char \<Rightarrow> int" where
  "IndexByte s c =
     (if c \<in> set s then int (length (takeWhile (\<lambda>x. x \<noteq> c) s)) else - 1)"

text \<open>\<open>strings.HasSuffix\<close> and \<open>strings.HasPrefix\<close>.\<close>

definition HasSuffix :: "string \<Rightarrow> string \<Rightarrow> bool" where
  "HasSuffix s sfx =
     (length sfx \<le> length s \<and> drop (length s - length sfx) s = sfx)"

definition HasPrefix :: "string \<Rightarrow> string \<Rightarrow> bool" where
  "HasPrefix s pfx = (length pfx \<le> length s \<and> take (length pfx) s = pfx)"

section \<open>The runtime seen by the renderer\<close>

record runtime =
  Now :: int
  RelTime :: "int64 \<Rightarrow> int \<Rightarrow> string"
  Format :: "int64 \<Rightarrow> string"
  IBytes :: "uint64 \<Rightarrow> string"
  Sprintf_f :: "nat \<Rightarrow> real \<Rightarrow> string"
  RuneCount :: "string \<Rightarrow> nat"

text \<open>
  \<^item> \<open>Now\<close>: the reading of \<open>time.Now()\<close>, in nanoseconds since the epoch;
  \<^item> \<open>RelTime at now\<close>: \<open>humanize.RelTime(time.Unix(at, 0), now, "ago", "from now")\<close>,
    so that \<open>humanize.Time(time.Unix(at, 0))\<close> is \<open>RelTime at Now\<close>;
  \<^item> \<open>Format at\<close>: \<open>time.Unix(at, 0).Format("2 Jan 2006 3:04:05 PM")\<close>, in the zone of
    the process;
  \<^item> \<open>IBytes\<close>: \<open>humanize.IBytes\<close>;
  \<^item> \<open>Sprintf_f n x\<close>: \<open>fmt.Sprintf("%.nf", x)\<close>;
  \<^item> \<open>RuneCount\<close>: \<open>utf8.RuneCountInString\<close>, the length that \<open>fmt\<close> pads to a width.
\<close>

subsection \<open>A reference instance\<close>

text \<open>
  The library functions computed exactly, for concrete examples: go-humanize's table of
  relative-time magnitudes, its byte humanisation with the logarithm and the rounding done
  in exact arithmetic, fixed-point float formatting that rounds half to even, and the
  calendar in UTC. Cells are taken to be ASCII, where runes are bytes.
\<close>

definition zero_pad :: "nat \<Rightarrow> string \<Rightarrow> string" where
  "zero_pad w s = replicate (w - length s) (CHR ''0'') @ s"

definition round_half_even :: "real \<Rightarrow> int" where
  "round_half_even r =
     (let f = \<lfloor>r\<rfloor>; d = r - of_int f in
      if d < 1 / 2 then f else if 1 / 2 < d then f + 1 else if even f then f else f + 1)"

definition FormatFloat_f :: "nat \<Rightarrow> real \<Rightarrow> string" where
  "FormatFloat_f prec x =
     (let m = \<bar>round_half_even (x * 10 ^ prec)\<bar> in
      (if x < 0 then ''-'' else []) @ digits (m div 10 ^ prec) @
      (if prec = 0 then [] else ''.'' @ zero_pad prec (digits (m mod 10 ^ prec))))"

function ilog1024 :: "int \<Rightarrow> nat" where
  "ilog1024 n = (if n < 1024 then 0 else Suc (ilog1024 (n div 1024)))"
  by pat_completeness auto
termination
  by (relation "measure nat") auto

declare ilog1024.simps [simp del]

definition humanize_IBytes :: "uint64 \<Rightarrow> string" where
  "humanize_IBytes s =
     (let n = uint s in
      if n < 10 then digits n @ '' B''
      else
        (let e = ilog1024 n;
             suffix = [''B'', ''KiB'', ''MiB'', ''GiB'', ''TiB'', ''PiB'', ''EiB''] ! e;
             val = real_of_int \<lfloor>real_of_int n / 1024 ^ e * 10 + 0.5\<rfloor> / 10
         in (if val < 10 then FormatFloat_f 1 val else FormatFloat_f 0 val) @ '' '' @ suffix))"

definition Second :: int where "Second = 1000000000"
definition Minute :: int where "Minute = 60 * Second"
definition Hour :: int where "Hour = 60 * Minute"
definition Day :: int where "Day = 24 * Hour"
definition Week :: int where "Week = 7 * Day"
definition Month :: int where "Month = 30 * Day"
definition Year :: int where "Year = 12 * Month"
definition LongTime :: int where "LongTime = 37 * Year"
definition MaxInt64 :: int where "MaxInt64 = 2 ^ 63 - 1"

definition defaultMagnitudes :: "(int \<times> string \<times> int) list" where
  "defaultMagnitudes =
     [(Second, ''now'', Second),
      (2 * Second, ''1 second %s'', 1),
      (Minute, ''%d seconds %s'', Second),
      (2 * Minute, ''1 minute %s'', 1),
      (Hour, ''%d minutes %s'', Minute),
      (2 * Hour, ''1 hour %s'', 1),
      (Day, ''%d hours %s'', Hour),
      (2 * Day, ''1 day %s'', 1),
      (Week, ''%d days %s'', Day),
      (2 * Week, ''1 week %s'', 1),
      (Month, ''%d weeks %s'', Week),
      (2 * Month, ''1 month %s'', 1),
      (Year, ''%d months %s'', Month),
      (18 * Month, ''1 year %s'', 1),
      (2 * Year, ''2 years %s'', 1),
      (LongTime, ''%d years %s'', Year),
      (MaxInt64, ''a long while %s'', 1)]"

text \<open>The verbs \<open>%d\<close> and \<open>%s\<close> of a magnitude's format, filled in.\<close>

fun expand_verbs :: "string \<Rightarrow> string \<Rightarrow> string \<Rightarrow> string" where
  "expand_verbs [] d l = []"
| "expand_verbs [c] d l = [c]"
| "expand_verbs (c # c' # cs) d l =
     (if c = CHR ''%'' \<and> c' = CHR ''d'' then d @ expand_verbs cs d l
      else if c = CHR ''%'' \<and> c' = CHR ''s'' then l @ expand_verbs cs d l
      else c # expand_verbs (c' # cs) d l)"

definition humanize_RelTime :: "int64 \<Rightarrow> int \<Rightarrow> string" where
  "humanize_RelTime ts now =
     (let a = sint ts * Second;
          lbl = (if now < a then ''from now'' else ''ago'');
          diff = min MaxInt64 (if now < a then a - now else now - a);
          (D, fmt, divby) =
            (case filter (\<lambda>(D, fmt, divby). diff < D) defaultMagnitudes of
               [] \<Rightarrow> last defaultMagnitudes
             | mag # _ \<Rightarrow> mag)
      in expand_verbs fmt (Itoa (diff div divby)) lbl)"

definition civil_from_days :: "int \<Rightarrow> int \<times> int \<times> int" where
  "civil_from_days z0 =
     (let z = z0 + 719468;
          era = z div 146097;
          doe = z mod 146097;
          yoe = (doe - doe div 1460 + doe div 36524 - doe div 146096) div 365;
          doy = doe - (365 * yoe + yoe div 4 - yoe div 100);
          mp = (5 * doy + 2) div 153;
          d = doy - (153 * mp + 2) div 5 + 1;
          m = (if mp < 10 then mp + 3 else mp - 9);
          y = yoe + era * 400 + (if m \<le> 2 then 1 else 0)
      in (y, m, d))"

definition Format_UTC :: "int64 \<Rightarrow> string" where
  "Format_UTC ts =
     (let t = sint ts;
          (y, m, d) = civil_from_days (t div 86400);
          s = t mod 86400;
          hh = s div 3600; mm = s mod 3600 div 60; ss = s mod 60;
          h12 = (if hh mod 12 = 0 then 12 else hh mod 12)
      in Itoa d @ '' '' @
         [''Jan'', ''Feb'', ''Mar'', ''Apr'', ''May'', ''Jun'', ''Jul'', ''Aug'', ''Sep'', ''Oct'',
          ''Nov'', ''Dec''] ! nat (m - 1) @ '' '' @
         (if y < 0 then ''-'' else []) @ zero_pad 4 (digits \<bar>y\<bar>) @ '' '' @
         Itoa h12 @ '':'' @ zero_pad 2 (Itoa mm) @ '':'' @ zero_pad 2 (Itoa ss) @ '' '' @
         (if 12 \<le> hh then ''PM'' else ''AM''))"

definition go_utc :: "int \<Rightarrow> runtime" where
  "go_utc now =
     \<lparr>Now = now, RelTime = humanize_RelTime, Format = Format_UTC, IBytes = humanize_IBytes,
      Sprintf_f = FormatFloat_f, RuneCount = length\<rparr>"

section \<open>Log sequence numbers\<close>

text \<open>\<open>lsn2int\<close> (report.go, 1237-1250).\<close>

definition lsn2int :: "string \<Rightarrow> int64" where
  "lsn2int s =
     (if length s = 0 then - 1
      else (let pos = IndexByte s (CHR ''/'') in
        if 0 \<le> pos then
          (case (ParseUint (take (nat pos) s) 16, ParseUint (drop (nat pos + 1) s) 16) of
             (Inr val1, Inr val2) \<Rightarrow> push_bit 32 val1 OR val2
           | _ \<Rightarrow> - 1)
        else - 1))"

text \<open>\<open>lsnDiff\<close> (report.go, 1252-1259).\<close>

definition lsnDiff :: "string \<Rightarrow> string \<Rightarrow> int64 \<times> bool" where
  "lsnDiff a b =
     (let va = lsn2int a; vb = lsn2int b in
      if va = - 1 \<or> vb = - 1 then (- 1, False) else (va - vb, True))"

text \<open>
  The shape of a position string in the words of the specification: two components
  around the first \<open>/\<close>, each a non-empty run of hexadecimal digits. A string is
  malformed when it is empty, has no separator, or has a component that is not such a run.
\<close>

definition hexdigit :: "char \<Rightarrow> bool" where
  "hexdigit c = (c \<in> set ''0123456789abcdefABCDEF'')"

definition hex_component :: "string \<Rightarrow> bool" where
  "hex_component cs = (cs \<noteq> [] \<and> list_all hexdigit cs)"

definition hi_part :: "string \<Rightarrow> string" where
  "hi_part s = takeWhile (\<lambda>x. x \<noteq> CHR ''/'') s"

definition lo_part :: "string \<Rightarrow> string" where
  "lo_part s = drop 1 (dropWhile (\<lambda>x. x \<noteq> CHR ''/'') s)"

definition malformed :: "string \<Rightarrow> bool" where
  "malformed s =
     (s = [] \<or> CHR ''/'' \<notin> set s \<or> \<not> hex_component (hi_part s) \<or> \<not> hex_component (lo_part s))"

section \<open>Formatting helpers\<close>

text \<open>\<open>fmtLag\<close> (report.go, 1179-1190).\<close>

definition fmtLag :: "runtime \<Rightarrow> string \<Rightarrow> string \<Rightarrow> string \<Rightarrow> string" where
  "fmtLag R a b qual =
     (let qual = (if 0 < length qual \<and> \<not> HasSuffix qual '' '' then qual @ '' '' else qual) in
      case lsnDiff a b of
        (d, ok) \<Rightarrow>
          if ok then
            (if d = 0 then '' (no '' @ qual @ ''lag)''
             else '' ('' @ qual @ ''lag = '' @ IBytes R d @ '')'')
          else [])"

text \<open>
  The qualifier as the lag text shows it: followed by one blank, unless it is empty or
  ends in a blank already.
\<close>

definition qual_shown :: "string \<Rightarrow> string" where
  "qual_shown qual = (if qual = [] \<or> last qual = CHR '' '' then qual else qual @ '' '')"

section \<open>The snapshot\<close>

text \<open>
  \<open>pgmetrics.Model\<close> and the structs it holds, with the fields that the functions
  embedded here read. Go's \<open>int\<close> is 64 bits wide. A struct of a section that is not
  expanded here is represented by one identifying field. A field name that several structs
  share (\<open>Name\<close>, \<open>OID\<close>, \<open>Size\<close>, \<open>Bloat\<close>) carries the name of its struct in front.
\<close>

record Setting =
  Setting :: string

record Metadata =
  At :: int64
  Local :: bool

record Backend =
  WaitEventType :: string
  WaitEvent :: string
  State :: string
  XactStart :: int64

record SystemMetrics =
  Hostname :: string

record ReplicationIn =
  Status :: string

record ReplicationOut =
  SentLSN :: string
  WriteLSN :: string
  FlushLSN :: string
  ReplayLSN :: string

record ReplicationSlot =
  SlotName :: string
  SlotType :: string

record Publication =
  Publication_Name :: string

record Subscription =
  Subscription_Name :: string

record Role =
  Role_OID :: int64
  Role_Name :: string

record Tablespace =
  Tablespace_OID :: int64
  Tablespace_Name :: string
  Owner :: string
  Location :: string
  Tablespace_Size :: int64
  DiskUsed :: int64
  DiskTotal :: int64
  InodesUsed :: int64
  InodesTotal :: int64





record Model =
  Metadata :: Metadata
  Settings :: "string \<rightharpoonup> Setting"
  StartTime :: int64
  SystemIdentifier :: string
  TimelineID :: int64
  CheckpointTime :: int64
  PriorLSN :: string
  RedoLSN :: string
  CheckpointLSN :: string
  OldestXid :: int64
  NextXid :: int64
  LastXactTimestamp :: int64
  NotificationQueueUsage :: real
  IsInRecovery :: bool
  Backends :: "Backend list"
  System :: "SystemMetrics option"
  ReplicationIncoming :: "ReplicationIn option"
  ReplicationOutgoing :: "ReplicationOut list"
  ReplicationSlots :: "ReplicationSlot list"
  Publications :: "Publication list"
  Subscriptions :: "Subscription list"
  Roles :: "Role list"
  Tablespaces :: "Tablespace list"


section \<open>Settings and versions\<close>

text \<open>\<open>getSetting\<close> (report.go, 1199-1204).\<close>

definition getSetting :: "Model \<Rightarrow> string \<Rightarrow> string" where
  "getSetting result key = (case Settings result key of Some s \<Rightarrow> Setting s | None \<Rightarrow> [])"

text \<open>\<open>getSettingBytes\<close> (report.go, 1218-1228); \<open>val <= 0\<close> on a \<open>uint64\<close> is \<open>val = 0\<close>.\<close>

definition getSettingBytes :: "runtime \<Rightarrow> Model \<Rightarrow> string \<Rightarrow> uint64 \<Rightarrow> string" where
  "getSettingBytes R result key factor =
     (let s = getSetting result key in
      if length s = 0 then s
      else (case ParseUint s 10 of
              Inl err \<Rightarrow> s
            | Inr val \<Rightarrow> if val \<le> 0 then s else s @ '' ('' @ IBytes R (val * factor) @ '')''))"

text \<open>\<open>getVersion\<close> (report.go, 1273-1280).\<close>

definition getVersion :: "Model \<Rightarrow> int" where
  "getVersion result =
     (case Atoi (getSetting result ''server_version_num'') of Inl err \<Rightarrow> 0 | Inr v \<Rightarrow> v)"

text \<open>\<open>getMaxWalSize\<close> (report.go, 1282-1290).\<close>

definition getMaxWalSize :: "runtime \<Rightarrow> Model \<Rightarrow> string \<times> string" where
  "getMaxWalSize R result =
     (let key = (if 90500 \<le> getVersion result then ''max_wal_size'' else ''checkpoint_segments'')
      in (key, getSettingBytes R result key (16 * 1024 * 1024)))"

section \<open>Ratios\<close>

text \<open>\<open>safeDiv\<close> (report.go, 1230-1235).\<close>

definition float64 :: "int64 \<Rightarrow> real" where
  "float64 a = real_of_int (sint a)"

definition safeDiv :: "int64 \<Rightarrow> int64 \<Rightarrow> real" where
  "safeDiv a b = (if b = 0 then 0 else float64 a / float64 b)"




section \<open>Backends\<close>

text \<open>\<open>isWaitingLock\<close> and \<open>isWaitingOther\<close> (report.go, 458-467).\<close>

definition isWaitingLock :: "Backend \<Rightarrow> bool" where
  "isWaitingLock be =
     (if WaitEventType be = ''waiting'' \<and> WaitEvent be = ''waiting'' then True
      else WaitEventType be = ''Lock'')"

definition isWaitingOther :: "Backend \<Rightarrow> bool" where
  "isWaitingOther be =
     (0 < length (WaitEventType be) \<and> WaitEventType be \<noteq> ''Lock'' \<and>
      WaitEventType be \<noteq> ''waiting'')"

text \<open>The closure \<open>isTooLong\<close> and the counting loop of \<open>reportBackends\<close>
  (report.go, 472-489).\<close>

definition isTooLong :: "uint64 \<Rightarrow> Model \<Rightarrow> Backend \<Rightarrow> bool" where
  "isTooLong tooLongSecs result be =
     (0 < sint (XactStart be) \<and>
      sint tooLongSecs < sint (At (Metadata result) - XactStart be))"

record counters =
  waitingLocks :: nat
  waitingOther :: nat
  idlexact :: nat
  toolong :: nat

definition count_backend :: "uint64 \<Rightarrow> Model \<Rightarrow> Backend \<Rightarrow> counters \<Rightarrow> counters" where
  "count_backend tooLongSecs result be c =
     (let c = (if isWaitingLock be then c\<lparr>waitingLocks := waitingLocks c + 1\<rparr> else c);
          c = (if isWaitingOther be then c\<lparr>waitingOther := waitingOther c + 1\<rparr> else c);
          c = (if HasPrefix (State be) ''idle in transaction''
               then c\<lparr>idlexact := idlexact c + 1\<rparr> else c);
          c = (if isTooLong tooLongSecs result be then c\<lparr>toolong := toolong c + 1\<rparr> else c)
      in c)"

definition reportBackends_counts :: "uint64 \<Rightarrow> Model \<Rightarrow> counters" where
  "reportBackends_counts tooLongSecs result =
     fold (count_backend tooLongSecs result) (Backends result)
       \<lparr>waitingLocks = 0, waitingOther = 0, idlexact = 0, toolong = 0\<rparr>"

text \<open>The two classes in the words of the specification.\<close>

definition lock_waiting :: "Backend \<Rightarrow> bool" where
  "lock_waiting be =
     (WaitEventType be = ''Lock'' \<or> (WaitEventType be = ''waiting'' \<and> WaitEvent be = ''waiting''))"

definition other_waiting :: "Backend \<Rightarrow> bool" where
  "other_waiting be =
     (WaitEventType be \<noteq> [] \<and> WaitEventType be \<noteq> ''Lock'' \<and> WaitEventType be \<noteq> ''waiting'')"


section \<open>Table layout\<close>

text \<open>
  \<open>tableWriter\<close> (report.go, 1294-1359). \<open>add\<close> formats each cell with \<open>%v\<close>; the callers
  embedded here pass the cells formatted.
\<close>

record tableWriter =
  data :: "string list list"

definition add :: "tableWriter \<Rightarrow> string list \<Rightarrow> tableWriter" where
  "add t row = t\<lparr>data := data t @ [row]\<rparr>"

definition cols :: "tableWriter \<Rightarrow> nat" where
  "cols t = fold (\<lambda>row n. if n < length row then length row else n) (data t) 0"

text \<open>The inner loop on the cells of one row, from column \<open>c\<close> on.\<close>

fun row_widths :: "nat list \<Rightarrow> nat \<Rightarrow> string list \<Rightarrow> nat list" where
  "row_widths widths c [] = widths"
| "row_widths widths c (col # row) =
     (let w = length col in
      row_widths (if widths ! c < w then widths[c := w] else widths) (Suc c) row)"

definition calc_widths :: "tableWriter \<Rightarrow> nat \<Rightarrow> nat list" where
  "calc_widths t ncols = fold (\<lambda>row widths. row_widths widths 0 row) (data t) (replicate ncols 0)"

text \<open>The closure \<open>line\<close>.\<close>

definition line :: "string \<Rightarrow> nat list \<Rightarrow> string" where
  "line pfx widths =
     pfx @ ''+'' @ concat (map (\<lambda>w. replicate (w + 2) (CHR ''-'') @ ''+'') widths) @ ''\<newline>''"

text \<open>The verb \<open>%*s\<close>: blanks in front, up to the width counted in runes.\<close>

definition pad :: "runtime \<Rightarrow> nat \<Rightarrow> string \<Rightarrow> string" where
  "pad R w s = replicate (w - RuneCount R s) (CHR '' '') @ s"

fun write_cells :: "runtime \<Rightarrow> nat list \<Rightarrow> nat \<Rightarrow> string list \<Rightarrow> string" where
  "write_cells R widths c [] = []"
| "write_cells R widths c (col # row) =
     '' '' @ pad R (widths ! c) col @ '' |'' @ write_cells R widths (Suc c) row"

fun write_rows :: "runtime \<Rightarrow> string \<Rightarrow> nat list \<Rightarrow> nat \<Rightarrow> string list list \<Rightarrow> string" where
  "write_rows R pfx widths i [] = []"
| "write_rows R pfx widths i (row # rows) =
     (if i = 1 then line pfx widths else []) @
     pfx @ ''|'' @ write_cells R widths 0 row @ ''\<newline>'' @
     write_rows R pfx widths (Suc i) rows"

definition tw_write :: "runtime \<Rightarrow> tableWriter \<Rightarrow> string \<Rightarrow> string" where
  "tw_write R t pfx =
     (if length (data t) = 0 then []
      else (let ncols = cols t in
        if ncols = 0 then []
        else (let widths = calc_widths t ncols in
          line pfx widths @ write_rows R pfx widths 0 (data t) @ line pfx widths)))"

text \<open>The layout in the words of the specification, as a list of lines.\<close>

definition uniform :: "tableWriter \<Rightarrow> nat \<Rightarrow> bool" where
  "uniform t n = list_all (\<lambda>row. length row = n) (data t)"

definition column_width :: "tableWriter \<Rightarrow> nat \<Rightarrow> nat" where
  "column_width t c = Max (set (map (\<lambda>row. length (row ! c)) (data t)))"

definition border :: "nat list \<Rightarrow> string" where
  "border ws = ''+'' @ concat (map (\<lambda>w. replicate (w + 2) (CHR ''-'') @ ''+'') ws)"

definition cells :: "runtime \<Rightarrow> nat list \<Rightarrow> string list \<Rightarrow> string" where
  "cells R ws row = ''|'' @ concat (map2 (\<lambda>w col. '' '' @ pad R w col @ '' |'') ws row)"

definition layout :: "runtime \<Rightarrow> tableWriter \<Rightarrow> nat \<Rightarrow> string list" where
  "layout R t n =
     (if data t = [] then []
      else (let ws = map (column_width t) [0..<n] in
        [border ws, cells R ws (hd (data t)), border ws] @
        map (cells R ws) (tl (data t)) @ [border ws]))"

definition emit_lines :: "string \<Rightarrow> string list \<Rightarrow> string" where
  "emit_lines pfx ls = concat (map (\<lambda>l. pfx @ l @ ''\<newline>'') ls)"

section \<open>Times\<close>

text \<open>\<open>fmtTimeAndSince\<close> (report.go, 1132-1139) and \<open>fmtYesNo\<close> (1157-1162).\<close>

definition fmtTimeAndSince :: "runtime \<Rightarrow> int64 \<Rightarrow> string" where
  "fmtTimeAndSince R ts =
     (if ts = 0 then [] else Format R ts @ '' ('' @ RelTime R ts (Now R) @ '')'')"


section \<open>Section renderers\<close>

text \<open>The settings table of \<open>reportWAL\<close> (report.go, 378-389).\<close>

definition reportWAL_settings :: "runtime \<Rightarrow> Model \<Rightarrow> tableWriter" where
  "reportWAL_settings R result =
     (let (maxwalk, maxwalv) = getMaxWalSize R result;
          tw1 = \<lparr>data = []\<rparr>;
          tw1 = add tw1 [''Setting'', ''Value''];
          tw1 = add tw1 [''wal_level'', getSetting result ''wal_level''];
          tw1 = add tw1 [''archive_timeout'', getSetting result ''archive_timeout''];
          tw1 = add tw1 [''wal_compression'', getSetting result ''wal_compression''];
          tw1 = add tw1 [maxwalk, maxwalv];
          tw1 = add tw1 [''min_wal_size'',
                  getSettingBytes R result ''min_wal_size'' (16 * 1024 * 1024)];
          tw1 = add tw1 [''checkpoint_timeout'', getSetting result ''checkpoint_timeout''];
          tw1 = add tw1 [''full_page_writes'', getSetting result ''full_page_writes''];
          tw1 = add tw1 [''wal_keep_segments'', getSetting result ''wal_keep_segments'']
      in tw1)"

text \<open>\<open>reportTablespaces\<close> (report.go, 645-682): the row of one tablespace, and the
  whole section.\<close>

definition tablespace_row :: "runtime \<Rightarrow> Model \<Rightarrow> Tablespace \<Rightarrow> string list" where
  "tablespace_row R result t =
     (let s = (if Tablespace_Size t \<noteq> - 1 then IBytes R (Tablespace_Size t) else []);
          du = (if Local (Metadata result) \<and> 0 < sint (DiskUsed t) \<and> 0 < sint (DiskTotal t)
                then IBytes R (DiskUsed t) @ '' ('' @
                     Sprintf_f R 1 (100 * safeDiv (DiskUsed t) (DiskTotal t)) @ ''%) of '' @
                     IBytes R (DiskTotal t)
                else []);
          iu = (if Local (Metadata result) \<and> 0 < sint (InodesUsed t) \<and> 0 < sint (InodesTotal t)
                then Itoa (sint (InodesUsed t)) @ '' ('' @
                     Sprintf_f R 1 (100 * safeDiv (InodesUsed t) (InodesTotal t)) @ ''%) of '' @
                     Itoa (sint (InodesTotal t))
                else []);
          loc = (if (Tablespace_Name t = ''pg_default'' \<or> Tablespace_Name t = ''pg_global'') \<and>
                    Location t \<noteq> []
                 then ''$PGDATA = '' @ Location t else Location t)
      in if Local (Metadata result) then [Tablespace_Name t, Owner t, loc, s, du, iu]
         else [Tablespace_Name t, Owner t, loc, s])"

definition reportTablespaces :: "runtime \<Rightarrow> Model \<Rightarrow> string" where
  "reportTablespaces R result =
     ''\<newline>Tablespaces:\<newline>'' @
     (let tw = \<lparr>data = []\<rparr>;
          tw = (if Local (Metadata result)
                then add tw [''Name'', ''Owner'', ''Location'', ''Size'', ''Disk Used'', ''Inode Used'']
                else add tw [''Name'', ''Owner'', ''Location'', ''Size'']);
          tw = fold (\<lambda>t tw. add tw (tablespace_row R result t)) (Tablespaces result) tw
      in tw_write R tw ''    '')"











section \<open>The report\<close>








text \<open>A minimal snapshot, collected one minute after the epoch.\<close>

definition snap0 :: Model where
  "snap0 =
     \<lparr>Metadata = \<lparr>At = 60, Local = False\<rparr>, Settings = Map.empty, StartTime = 0,
      SystemIdentifier = [], TimelineID = 0, CheckpointTime = 0, PriorLSN = [], RedoLSN = [],
      CheckpointLSN = [], OldestXid = 0, NextXid = 0, LastXactTimestamp = 0,
      NotificationQueueUsage = 0, IsInRecovery = False, Backends = [], System = None,
      ReplicationIncoming = None, ReplicationOutgoing = [], ReplicationSlots = [],
      Publications = [], Subscriptions = [], Roles = [], Tablespaces = []\<rparr>"

section \<open>Example data\<close>



text \<open>Snapshots of a 9.5 and of a 9.4 server.\<close>

definition snap_9_5 :: Model where
  "snap_9_5 = snap0\<lparr>Settings :=
     [''server_version_num'' \<mapsto> \<lparr>Setting = ''90500''\<rparr>, ''max_wal_size'' \<mapsto> \<lparr>Setting = ''64''\<rparr>]\<rparr>"

definition snap_9_4 :: Model where
  "snap_9_4 = snap0\<lparr>Settings :=
     [''server_version_num'' \<mapsto> \<lparr>Setting = ''90400''\<rparr>,
      ''checkpoint_segments'' \<mapsto> \<lparr>Setting = ''3''\<rparr>]\<rparr>"

text \<open>Backends that wait on a lock, in the legacy way, on I/O, and not at all.\<close>

definition be_lock :: Backend where
  "be_lock = \<lparr>WaitEventType = ''Lock'', WaitEvent = ''relation'', State = ''active'', XactStart = 0\<rparr>"

definition be_legacy :: Backend where
  "be_legacy =
     \<lparr>WaitEventType = ''waiting'', WaitEvent = ''waiting'', State = ''active'', XactStart = 0\<rparr>"

definition be_io :: Backend where
  "be_io = \<lparr>WaitEventType = ''IO'', WaitEvent = ''DataFileRead'', State = ''active'', XactStart = 0\<rparr>"

definition be_idle :: Backend where
  "be_idle = \<lparr>WaitEventType = [], WaitEvent = [], State = ''idle'', XactStart = 0\<rparr>"








text \<open>A table with a header only, and the same with one data row.\<close>

definition tw_header_only :: tableWriter where
  "tw_header_only = add \<lparr>data = []\<rparr> [''A'', ''BB'']"

definition tw_one_row :: tableWriter where
  "tw_one_row = add tw_header_only [''X'', ''Y'']"

chapter \<open>Properties\<close>

section \<open>Parsing: auxiliary facts\<close>

lemma digit_hexdigit: "digit c = Some d \<Longrightarrow> d < 16 \<Longrightarrow> hexdigit c"
  apply (cases c)
  subgoal for b0 b1 b2 b3 b4 b5 b6 b7
    apply (cases b0; cases b1; cases b2; cases b3; cases b4; cases b5; cases b6; cases b7)
    apply (simp_all add: digit_def lower_def hexdigit_def Let_def
        word_le_nat_alt word_less_nat_alt)
    done
  done

lemma ParseUint_loop_hex:
  "ParseUint_loop 16 cs n = Inr v \<Longrightarrow> list_all hexdigit cs"
proof (induction cs arbitrary: n)
  case Nil
  then show ?case by simp
next
  case (Cons c cs)
  from Cons.prems obtain d where d: "digit c = Some d"
    by (cases "digit c") auto
  from Cons.prems d have small: "d < 16"
    by (auto simp: not_le split: if_splits)
  from Cons.prems d small have "\<exists>m. ParseUint_loop 16 cs m = Inr v"
    by (auto simp: Let_def not_le split: if_splits)
  with Cons.IH have "list_all hexdigit cs" by blast
  with digit_hexdigit [OF d small] show ?case by simp
qed

lemma ParseUint_hex: "ParseUint cs 16 = Inr v \<Longrightarrow> hex_component cs"
  by (auto simp: ParseUint_def hex_component_def dest: ParseUint_loop_hex split: if_splits)

lemma IndexByte_neg: "c \<notin> set s \<Longrightarrow> IndexByte s c = - 1"
  by (simp add: IndexByte_def)

lemma IndexByte_pos:
  "c \<in> set s \<Longrightarrow> IndexByte s c = int (length (takeWhile (\<lambda>x. x \<noteq> c) s))"
  by (simp add: IndexByte_def)

lemma take_IndexByte: "take (length (takeWhile P s)) s = takeWhile P s"
  by (induction s) auto

lemma drop_IndexByte: "drop (length (takeWhile P s)) s = dropWhile P s"
  by (induction s) auto

lemma lsn2int_parts:
  "CHR ''/'' \<in> set s \<Longrightarrow>
   lsn2int s =
     (case (ParseUint (hi_part s) 16, ParseUint (lo_part s) 16) of
        (Inr val1, Inr val2) \<Rightarrow> push_bit 32 val1 OR val2
      | _ \<Rightarrow> - 1)"
proof -
  assume sl: "CHR ''/'' \<in> set s"
  then have ne: "s \<noteq> []" by auto
  have d: "drop (Suc (length (takeWhile (\<lambda>x. x \<noteq> CHR ''/'') s))) s = lo_part s"
    unfolding lo_part_def drop_IndexByte [symmetric] by simp
  show ?thesis
    using sl ne by (simp add: lsn2int_def IndexByte_pos take_IndexByte d hi_part_def)
qed

lemma malformed_lsn2int: "malformed s \<Longrightarrow> lsn2int s = - 1"
proof (cases "CHR ''/'' \<in> set s")
  case False
  then show ?thesis by (simp add: lsn2int_def IndexByte_neg)
next
  case True
  assume "malformed s"
  with True have "\<not> hex_component (hi_part s) \<or> \<not> hex_component (lo_part s)"
    by (auto simp: malformed_def)
  then have "(\<forall>v. ParseUint (hi_part s) 16 \<noteq> Inr v) \<or> (\<forall>v. ParseUint (lo_part s) 16 \<noteq> Inr v)"
    using ParseUint_hex by blast
  then show ?thesis
    by (auto simp: lsn2int_parts [OF True] split: sum.splits)
qed

lemma hexdigit_not_slash: "hexdigit c \<Longrightarrow> c \<noteq> CHR ''/''"
  by (auto simp: hexdigit_def)

lemma hex_component_no_slash: "hex_component h \<Longrightarrow> CHR ''/'' \<notin> set h"
  by (auto simp: hex_component_def list_all_iff dest: hexdigit_not_slash)

lemma lsn2int_join:
  assumes "ParseUint h 16 = Inr v1" "ParseUint l 16 = Inr v2"
  shows "lsn2int (h @ ''/'' @ l) = push_bit 32 v1 OR v2"
proof -
  have ns: "CHR ''/'' \<notin> set h"
    using assms(1) by (intro hex_component_no_slash ParseUint_hex)
  then have ns': "\<forall>x\<in>set h. x \<noteq> CHR ''/''" by auto
  then have hi: "hi_part (h @ ''/'' @ l) = h"
    by (simp add: hi_part_def takeWhile_tail)
  have "dropWhile (\<lambda>x. x \<noteq> CHR ''/'') (h @ ''/'' @ l) = ''/'' @ l"
    using ns' by (simp add: dropWhile_append2)
  then have lo: "lo_part (h @ ''/'' @ l) = l"
    by (simp add: lo_part_def)
  have "CHR ''/'' \<in> set (h @ ''/'' @ l)" by simp
  from lsn2int_parts [OF this] show ?thesis
    unfolding hi lo by (simp add: assms)
qed

lemma push_take: "push_bit 32 (take_bit 32 v) = push_bit 32 (v :: 64 word)"
  by (rule bit_word_eqI) (auto simp: bit_simps)

lemma HasSuffix_blank: "HasSuffix q '' '' = (q \<noteq> [] \<and> last q = CHR '' '')"
proof (cases q rule: rev_cases)
  case Nil
  then show ?thesis by (simp add: HasSuffix_def)
next
  case (snoc ys y)
  then show ?thesis by (simp add: HasSuffix_def)
qed

lemma fmtLag_qual:
  "fmtLag R a b qual =
     (case lsnDiff a b of
        (d, ok) \<Rightarrow>
          if ok then
            (if d = 0 then '' (no '' @ qual_shown qual @ ''lag)''
             else '' ('' @ qual_shown qual @ ''lag = '' @ IBytes R d @ '')'')
          else [])"
  by (auto simp: fmtLag_def qual_shown_def HasSuffix_blank Let_def split: prod.splits)

lemma malformed_examples:
  "malformed []" "malformed ''0A''" "malformed ''0/2x''" "malformed ''/5''"
  "\<not> malformed ''0/0''" "\<not> malformed ''ffffffff/ffffffff''"
  by (simp_all add: malformed_def hi_part_def lo_part_def hex_component_def hexdigit_def)

section \<open>Unparsable positions\<close>

text \<open>
  C5. For every empty or malformed position string (empty, no \<open>/\<close> separator, or a
  component that is not a run of hexadecimal digits) \<open>lsn2int\<close> returns the sentinel
  \<open>-1\<close>; and \<open>lsnDiff\<close> on a pair where either side has the sentinel value, so in
  particular where either side is malformed, returns \<open>(-1, false)\<close>: the validity flag
  is false and no zero distance is reported.
\<close>

theorem lsn_malformed_invalid:
  "(malformed s \<longrightarrow> lsn2int s = - 1) \<and>
   (lsn2int a = - 1 \<or> lsn2int b = - 1 \<longrightarrow> lsnDiff a b = (- 1, False)) \<and>
   (malformed a \<or> malformed b \<longrightarrow> lsnDiff a b = (- 1, False))"
  by (auto simp: lsnDiff_def Let_def dest: malformed_lsn2int)

theorem lsn_malformed_invalid_witness:
  "malformed ''0/2x'' \<and> lsn2int ''0/2x'' = - 1 \<and>
   malformed ''0A'' \<and> lsn2int ''0A'' = - 1 \<and> lsnDiff ''0A'' ''16/B374D848'' = (- 1, False)"
  using lsn_malformed_invalid [of "''0/2x''" "''0A''" "''16/B374D848''"]
    lsn_malformed_invalid [of "''0A''" "''0A''" "''16/B374D848''"]
  by (simp add: malformed_examples)

section \<open>Lag display\<close>



section \<open>Positions that wrap\<close>

text \<open>
  C10. \<open>lsn2int\<close> accepts each hexadecimal component up to 64 bits and computes
  \<open>hi << 32 | lo\<close> in 64-bit arithmetic, so the high component wraps modulo \<open>2^64\<close>.
  The well-formed string \<open>ffffffff/ffffffff\<close> has the value \<open>-1\<close>, the sentinel of an
  unparsable position; so \<open>lsnDiff\<close> reports a pair of well-formed positions as invalid and
  \<open>fmtLag\<close> shows nothing for it. Two positions whose high components agree in their low
  32 bits have the same value.
\<close>

theorem lsn2int_wraps:
  "\<not> malformed ''ffffffff/ffffffff'' \<and> lsn2int ''ffffffff/ffffffff'' = - 1 \<and>
   \<not> malformed ''0/0'' \<and> lsnDiff ''ffffffff/ffffffff'' ''0/0'' = (- 1, False) \<and>
   fmtLag R ''ffffffff/ffffffff'' ''0/0'' qual = [] \<and>
   ParseUint ''ffffffffffffffff'' 16 = Inr (- 1) \<and>
   (ParseUint h1 16 = Inr v1 \<and> ParseUint l 16 = Inr v \<longrightarrow>
      lsn2int (h1 @ ''/'' @ l) = push_bit 32 v1 OR v \<and>
      unat (push_bit 32 v1) = unat v1 * 2 ^ 32 mod 2 ^ 64) \<and>
   (ParseUint h1 16 = Inr v1 \<and> ParseUint h2 16 = Inr v2 \<and> ParseUint l 16 = Inr v \<and>
    take_bit 32 v1 = take_bit 32 v2 \<longrightarrow>
      lsn2int (h1 @ ''/'' @ l) = lsn2int (h2 @ ''/'' @ l))"
proof -
  have b: "lsn2int ''ffffffff/ffffffff'' = - 1" by code_simp
  have d: "lsnDiff ''ffffffff/ffffffff'' ''0/0'' = (- 1, False)"
    by (simp add: lsnDiff_def b)
  have e: "fmtLag R ''ffffffff/ffffffff'' ''0/0'' qual = []"
    by (simp add: fmtLag_qual d)
  have f: "ParseUint ''ffffffffffffffff'' 16 = Inr (- 1)" by code_simp
  have g: "unat (push_bit 32 v1 :: 64 word) = unat v1 * 2 ^ 32 mod 2 ^ 64"
    by (simp add: push_bit_eq_mult unat_word_ariths)
  have h: "lsn2int (h1 @ ''/'' @ l) = lsn2int (h2 @ ''/'' @ l)"
    if "ParseUint h1 16 = Inr v1" "ParseUint h2 16 = Inr v2" "ParseUint l 16 = Inr v"
      "take_bit 32 v1 = take_bit 32 v2"
  proof -
    have "push_bit 32 v1 = push_bit 32 v2"
      using that(4) push_take [of v1] push_take [of v2] by simp
    moreover have "lsn2int (h1 @ ''/'' @ l) = push_bit 32 v1 OR v"
      by (rule lsn2int_join [OF that(1) that(3)])
    moreover have "lsn2int (h2 @ ''/'' @ l) = push_bit 32 v2 OR v"
      by (rule lsn2int_join [OF that(2) that(3)])
    ultimately show ?thesis by simp
  qed
  show ?thesis
    using b d e f g h lsn2int_join [of h1 v1 l v] malformed_examples(5,6) by simp
qed

theorem lsn2int_wraps_witness:
  "ParseUint ''100000001'' 16 = Inr 4294967297 \<and> ParseUint ''1'' 16 = Inr 1 \<and>
   ParseUint ''0'' 16 = Inr 0 \<and> take_bit 32 (4294967297 :: 64 word) = take_bit 32 1 \<and>
   ''100000001/0'' \<noteq> ''1/0'' \<and>
   lsn2int ''100000001/0'' = lsn2int ''1/0''"
proof -
  have p1: "ParseUint ''100000001'' 16 = Inr 4294967297" by code_simp
  have p2: "ParseUint ''1'' 16 = Inr 1" by code_simp
  have p3: "ParseUint ''0'' 16 = Inr 0" by code_simp
  have p4: "take_bit 32 (4294967297 :: 64 word) = take_bit 32 1" by simp
  from p1 p2 p3 p4
    lsn2int_wraps [where ?h1.0 = "''100000001''" and ?v1.0 = 4294967297 and l = "''0''"
      and v = 0 and ?h2.0 = "''1''" and ?v2.0 = 1 and R = "go_utc 0" and qual = "[]"]
  have "lsn2int (''100000001'' @ ''/'' @ ''0'') = lsn2int (''1'' @ ''/'' @ ''0'')"
    by blast
  with p1 p2 p3 p4 show ?thesis by simp
qed

section \<open>Waiting backends\<close>

lemma count_fold:
  "fold (count_backend secs result) bes c =
     c\<lparr>waitingLocks := waitingLocks c + length (filter isWaitingLock bes),
       waitingOther := waitingOther c + length (filter isWaitingOther bes),
       idlexact := idlexact c + length (filter (\<lambda>be. HasPrefix (State be) ''idle in transaction'') bes),
       toolong := toolong c + length (filter (isTooLong secs result) bes)\<rparr>"
  by (induction bes arbitrary: c) (simp_all add: count_backend_def)

text \<open>
  C3. A backend is counted as waiting on locks if and only if its wait-event type is
  \<open>Lock\<close>, or its wait-event type and its wait event are both \<open>waiting\<close> (the
  convention before 9.6); it is counted as waiting on other if and only if its wait-event
  type is non-empty and neither \<open>Lock\<close> nor \<open>waiting\<close>. No backend is in both classes,
  and the two counters of \<open>reportBackends\<close> are the sizes of the two classes.
\<close>

theorem wait_classes:
  "isWaitingLock be = lock_waiting be \<and>
   isWaitingOther be = other_waiting be \<and>
   \<not> (isWaitingLock be \<and> isWaitingOther be) \<and>
   waitingLocks (reportBackends_counts tooLongSecs result) =
     length (filter lock_waiting (Backends result)) \<and>
   waitingOther (reportBackends_counts tooLongSecs result) =
     length (filter other_waiting (Backends result))"
proof -
  have l: "isWaitingLock = lock_waiting"
    by (auto simp: isWaitingLock_def lock_waiting_def fun_eq_iff)
  have o: "isWaitingOther = other_waiting"
    by (auto simp: isWaitingOther_def other_waiting_def fun_eq_iff)
  have x: "\<not> (lock_waiting be \<and> other_waiting be)"
    by (auto simp: lock_waiting_def other_waiting_def)
  show ?thesis
    using x by (simp add: reportBackends_counts_def count_fold l o)
qed

theorem wait_classes_witness:
  "isWaitingLock be_lock \<and> isWaitingLock be_legacy \<and> isWaitingOther be_io \<and>
   \<not> isWaitingOther be_lock \<and> \<not> isWaitingLock be_io \<and>
   \<not> isWaitingLock be_idle \<and> \<not> isWaitingOther be_idle \<and>
   waitingLocks (reportBackends_counts 60
     (snap0\<lparr>Backends := [be_lock, be_legacy, be_io, be_idle]\<rparr>)) = 2 \<and>
   waitingOther (reportBackends_counts 60
     (snap0\<lparr>Backends := [be_lock, be_legacy, be_io, be_idle]\<rparr>)) = 1"
  using wait_classes [of be_lock 60 "snap0\<lparr>Backends := [be_lock, be_legacy, be_io, be_idle]\<rparr>"]
    wait_classes [of be_legacy 60 snap0] wait_classes [of be_io 60 snap0]
    wait_classes [of be_idle 60 snap0]
  by (simp add: lock_waiting_def other_waiting_def be_lock_def be_legacy_def be_io_def
      be_idle_def)

section \<open>The WAL size setting\<close>

text \<open>
  C7. The key of the WAL size row is gated on the version, inclusively at 90500: when
  \<open>getVersion\<close> is at least 90500, \<open>getMaxWalSize\<close> returns the key \<open>max_wal_size\<close>,
  otherwise \<open>checkpoint_segments\<close>, with the value of that setting, and this pair is the
  fifth row of the settings table of \<open>reportWAL\<close>. Version 90500 selects
  \<open>max_wal_size\<close> and version 90400 selects \<open>checkpoint_segments\<close>.
\<close>

theorem max_wal_size_gate:
  "fst (getMaxWalSize R result) =
     (if 90500 \<le> getVersion result then ''max_wal_size'' else ''checkpoint_segments'') \<and>
   snd (getMaxWalSize R result) =
     getSettingBytes R result (fst (getMaxWalSize R result)) (16 * 1024 * 1024) \<and>
   map hd (data (reportWAL_settings R result)) =
     [''Setting'', ''wal_level'', ''archive_timeout'', ''wal_compression'',
      if 90500 \<le> getVersion result then ''max_wal_size'' else ''checkpoint_segments'',
      ''min_wal_size'', ''checkpoint_timeout'', ''full_page_writes'', ''wal_keep_segments''] \<and>
   data (reportWAL_settings R result) ! 4 =
     [fst (getMaxWalSize R result), snd (getMaxWalSize R result)]"
proof -
  have k: "fst (getMaxWalSize R result) =
     (if 90500 \<le> getVersion result then ''max_wal_size'' else ''checkpoint_segments'')"
    by (simp add: getMaxWalSize_def Let_def)
  have v: "snd (getMaxWalSize R result) =
     getSettingBytes R result (fst (getMaxWalSize R result)) (16 * 1024 * 1024)"
    by (simp add: getMaxWalSize_def Let_def)
  have d: "data (reportWAL_settings R result) =
     [[''Setting'', ''Value''],
      [''wal_level'', getSetting result ''wal_level''],
      [''archive_timeout'', getSetting result ''archive_timeout''],
      [''wal_compression'', getSetting result ''wal_compression''],
      [fst (getMaxWalSize R result), snd (getMaxWalSize R result)],
      [''min_wal_size'', getSettingBytes R result ''min_wal_size'' (16 * 1024 * 1024)],
      [''checkpoint_timeout'', getSetting result ''checkpoint_timeout''],
      [''full_page_writes'', getSetting result ''full_page_writes''],
      [''wal_keep_segments'', getSetting result ''wal_keep_segments'']]"
    unfolding reportWAL_settings_def Let_def add_def by (simp add: case_prod_beta)
  show ?thesis
    unfolding d using k v by simp
qed

theorem max_wal_size_gate_witness:
  "getVersion snap_9_5 = 90500 \<and>
   getMaxWalSize (go_utc 0) snap_9_5 = (''max_wal_size'', ''64 (1.0 GiB)'') \<and>
   getVersion snap_9_4 = 90400 \<and>
   getMaxWalSize (go_utc 0) snap_9_4 = (''checkpoint_segments'', ''3 (48 MiB)'') \<and>
   data (reportWAL_settings (go_utc 0) snap_9_5) ! 4 = [''max_wal_size'', ''64 (1.0 GiB)''] \<and>
   data (reportWAL_settings (go_utc 0) snap_9_4) ! 4 = [''checkpoint_segments'', ''3 (48 MiB)'']"
proof -
  have v5: "getVersion snap_9_5 = 90500" by code_simp
  have v4: "getVersion snap_9_4 = 90400" by code_simp
  have b5: "getSettingBytes (go_utc 0) snap_9_5 ''max_wal_size'' (16 * 1024 * 1024) = ''64 (1.0 GiB)''"
    by code_simp
  have b4: "getSettingBytes (go_utc 0) snap_9_4 ''checkpoint_segments'' (16 * 1024 * 1024) =
      ''3 (48 MiB)''"
    by code_simp
  show ?thesis
    using max_wal_size_gate [of "go_utc 0" snap_9_5] max_wal_size_gate [of "go_utc 0" snap_9_4]
      b5 b4
    by (simp add: v5 v4 prod_eq_iff)
qed

section \<open>Table layout\<close>

lemma cols_fold:
  "list_all (\<lambda>row. length row = n) rows \<Longrightarrow>
   fold (\<lambda>row n. if n < length row then length row else n) rows k =
     (if rows = [] then k else max k n)"
  by (induction rows arbitrary: k) (auto simp: max_def)

lemma cols_uniform: "uniform t n \<Longrightarrow> data t \<noteq> [] \<Longrightarrow> cols t = n"
  by (simp add: uniform_def cols_def cols_fold)

lemma length_row_widths: "length (row_widths ws c row) = length ws"
  by (induction row arbitrary: ws c) (auto simp: Let_def)

lemma nth_row_widths:
  "c + length row \<le> length ws \<Longrightarrow> j < length ws \<Longrightarrow>
   row_widths ws c row ! j =
     (if c \<le> j \<and> j < c + length row then max (ws ! j) (length (row ! (j - c))) else ws ! j)"
proof (induction row arbitrary: ws c)
  case Nil
  then show ?case by simp
next
  case (Cons col row)
  let ?ws' = "if ws ! c < length col then ws[c := length col] else ws"
  have len: "length ?ws' = length ws" by simp
  have c: "c < length ws" using Cons.prems by simp
  have step: "row_widths ws c (col # row) = row_widths ?ws' (Suc c) row"
    by (simp add: Let_def)
  have IH: "row_widths ?ws' (Suc c) row ! j =
     (if Suc c \<le> j \<and> j < Suc c + length row
      then max (?ws' ! j) (length (row ! (j - Suc c))) else ?ws' ! j)"
    using Cons.prems by (intro Cons.IH) (simp_all del: row_widths.simps)
  show ?case
  proof (cases "j = c")
    case True
    then show ?thesis
      unfolding step IH using c by (auto simp: max_def)
  next
    case False
    then show ?thesis
      unfolding step IH using c Cons.prems
      by (auto simp: nth_Cons' Suc_diff_Suc not_le less_Suc_eq_le)
  qed
qed

lemma row_widths_map:
  assumes "length row = n" "length ws = n"
  shows "row_widths ws 0 row = map (\<lambda>j. max (ws ! j) (length (row ! j))) [0..<n]"
proof (rule nth_equalityI)
  show "length (row_widths ws 0 row) = length (map (\<lambda>j. max (ws ! j) (length (row ! j))) [0..<n])"
    using assms by (simp add: length_row_widths)
next
  fix j assume "j < length (row_widths ws 0 row)"
  then have j: "j < n" using assms by (simp add: length_row_widths)
  then show "row_widths ws 0 row ! j = map (\<lambda>j. max (ws ! j) (length (row ! j))) [0..<n] ! j"
    using assms by (simp add: nth_row_widths)
qed

lemma fold_row_widths:
  "list_all (\<lambda>row. length row = n) rows \<Longrightarrow> length ws = n \<Longrightarrow>
   fold (\<lambda>row widths. row_widths widths 0 row) rows ws =
     map (\<lambda>j. fold max (map (\<lambda>row. length (row ! j)) rows) (ws ! j)) [0..<n]"
proof (induction rows arbitrary: ws)
  case Nil
  then show ?case using map_nth [of ws] by simp
next
  case (Cons row rows)
  let ?ws' = "map (\<lambda>j. max (ws ! j) (length (row ! j))) [0..<n]"
  have r: "row_widths ws 0 row = ?ws'"
    using Cons.prems by (intro row_widths_map) simp_all
  have "fold (\<lambda>row widths. row_widths widths 0 row) rows ?ws' =
     map (\<lambda>j. fold max (map (\<lambda>row. length (row ! j)) rows) (?ws' ! j)) [0..<n]"
    using Cons.prems by (intro Cons.IH) simp_all
  then show ?case
    by (simp add: r max.commute del: row_widths.simps)
qed

lemma fold_max_0: "xs \<noteq> [] \<Longrightarrow> fold max xs (0::nat) = Max (set xs)"
  by (cases xs) (simp_all add: Max.set_eq_fold [symmetric])

lemma calc_widths_uniform:
  assumes "uniform t n" "data t \<noteq> []"
  shows "calc_widths t n = map (column_width t) [0..<n]"
  using assms
  by (simp add: calc_widths_def uniform_def fold_row_widths column_width_def fold_max_0)

lemma write_cells_drop:
  "c + length row \<le> length ws \<Longrightarrow>
   write_cells R ws c row =
     concat (map2 (\<lambda>w col. '' '' @ pad R w col @ '' |'') (drop c ws) row)"
proof (induction row arbitrary: c)
  case Nil
  then show ?case by simp
next
  case (Cons col row)
  then have c: "c < length ws" by simp
  have "write_cells R ws (Suc c) row =
     concat (map2 (\<lambda>w col. '' '' @ pad R w col @ '' |'') (drop (Suc c) ws) row)"
    using Cons.prems by (intro Cons.IH) simp
  then show ?case
    by (simp add: Cons_nth_drop_Suc [OF c, symmetric])
qed

lemma write_cells_cells:
  "length row \<le> length ws \<Longrightarrow> ''|'' @ write_cells R ws 0 row = cells R ws row"
  by (simp add: write_cells_drop cells_def)

lemma line_border: "line pfx ws = pfx @ border ws @ ''\<newline>''"
  by (simp add: line_def border_def)

lemma write_rows_later:
  "2 \<le> i \<Longrightarrow> list_all (\<lambda>row. length row \<le> length ws) rows \<Longrightarrow>
   write_rows R pfx ws i rows = emit_lines pfx (map (cells R ws) rows)"
proof (induction rows arbitrary: i)
  case Nil
  then show ?case by (simp add: emit_lines_def)
next
  case (Cons row rows)
  have "write_rows R pfx ws (Suc i) rows = emit_lines pfx (map (cells R ws) rows)"
    using Cons.prems by (intro Cons.IH) simp_all
  moreover have "''|'' @ write_cells R ws 0 row = cells R ws row"
    using Cons.prems by (intro write_cells_cells) simp
  ultimately show ?case
    using Cons.prems(1) by (simp add: emit_lines_def)
qed

lemma write_rows_all:
  assumes "list_all (\<lambda>row. length row \<le> length ws) (r0 # rows)"
  shows "write_rows R pfx ws 0 (r0 # rows) =
     emit_lines pfx
       (cells R ws r0 # (if rows = [] then [] else border ws # map (cells R ws) rows))"
proof (cases rows)
  case Nil
  have "''|'' @ write_cells R ws 0 r0 = cells R ws r0"
    using assms by (intro write_cells_cells) simp
  then show ?thesis
    using Nil by (simp add: emit_lines_def)
next
  case (Cons r1 rest)
  have c0: "''|'' @ write_cells R ws 0 r0 = cells R ws r0"
    using assms by (intro write_cells_cells) simp
  have c1: "''|'' @ write_cells R ws 0 r1 = cells R ws r1"
    using assms Cons by (intro write_cells_cells) simp
  have "write_rows R pfx ws (Suc (Suc 0)) rest = emit_lines pfx (map (cells R ws) rest)"
    using assms Cons by (intro write_rows_later) simp_all
  then show ?thesis
    using Cons c0 c1 by (simp add: emit_lines_def line_border)
qed

lemma tw_write_uniform:
  assumes "uniform t n" "0 < n" "data t \<noteq> []"
  shows "tw_write R t pfx =
     (let ws = map (column_width t) [0..<n] in
      emit_lines pfx
        ([border ws, cells R ws (hd (data t))] @
         (if tl (data t) = [] then [] else border ws # map (cells R ws) (tl (data t))) @
         [border ws]))"
proof -
  obtain r0 rows where d: "data t = r0 # rows"
    using assms(3) by (cases "data t") auto
  let ?ws = "map (column_width t) [0..<n]"
  have le: "list_all (\<lambda>row. length row \<le> length ?ws) (r0 # rows)"
    using assms(1) d by (simp add: uniform_def list_all_iff)
  have "tw_write R t pfx = line pfx ?ws @ write_rows R pfx ?ws 0 (r0 # rows) @ line pfx ?ws"
    using assms d by (simp add: tw_write_def cols_uniform calc_widths_uniform Let_def)
  then show ?thesis
    unfolding write_rows_all [OF le] using d
    by (simp add: emit_lines_def line_border Let_def)
qed

lemma tw_examples:
  "data tw_header_only = [[''A'', ''BB'']]"
  "data tw_one_row = [[''A'', ''BB''], [''X'', ''Y'']]"
  by (simp_all add: tw_header_only_def tw_one_row_def add_def)

lemma column_width_examples:
  "map (column_width tw_header_only) [0..<2] = [1, 2]"
  "map (column_width tw_one_row) [0..<2] = [1, 2]"
  by code_simp+

lemma go_utc_RuneCount: "RuneCount (go_utc n) = length"
  by (simp add: go_utc_def)

text \<open>
  C4, as it holds. For a table whose rows all have \<open>n\<close> columns, \<open>n\<close> positive: each
  column is as wide as its longest cell, the header included. With two rows or more the
  output is the top border, the header row, the separator border, the data rows in the
  order of insertion and the bottom border, \<open>rows + 3\<close> lines; a border is \<open>+\<close>, then
  per column \<open>width + 2\<close> dashes and \<open>+\<close>; a cell has one blank on each side; every
  line starts with the prefix. With the header as its only row the table has no
  separator: top border, header, bottom border. A table with no row, or with rows of no
  column, writes nothing.
\<close>

theorem table_layout:
  "(uniform t n \<and> 0 < n \<and> 2 \<le> length (data t) \<longrightarrow>
      calc_widths t (cols t) = map (column_width t) [0..<n] \<and>
      tw_write R t pfx = emit_lines pfx (layout R t n) \<and>
      length (layout R t n) = length (data t) + 3) \<and>
   (uniform t n \<and> 0 < n \<and> length (data t) = 1 \<longrightarrow>
      tw_write R t pfx =
        emit_lines pfx
          [border (map (column_width t) [0..<n]),
           cells R (map (column_width t) [0..<n]) (hd (data t)),
           border (map (column_width t) [0..<n])]) \<and>
   (data t = [] \<longrightarrow> tw_write R t pfx = []) \<and>
   (uniform t 0 \<longrightarrow> tw_write R t pfx = [])"
proof -
  have many: "calc_widths t (cols t) = map (column_width t) [0..<n] \<and>
      tw_write R t pfx = emit_lines pfx (layout R t n) \<and>
      length (layout R t n) = length (data t) + 3"
    if "uniform t n" "0 < n" "2 \<le> length (data t)"
  proof -
    from that(3) have ne: "data t \<noteq> []" and tl: "tl (data t) \<noteq> []"
      by (cases "data t"; cases "tl (data t)"; auto)+
    show ?thesis
      using ne tl that
      by (simp add: tw_write_uniform layout_def Let_def cols_uniform calc_widths_uniform)
  qed
  have one: "tw_write R t pfx =
        emit_lines pfx
          [border (map (column_width t) [0..<n]),
           cells R (map (column_width t) [0..<n]) (hd (data t)),
           border (map (column_width t) [0..<n])]"
    if "uniform t n" "0 < n" "length (data t) = 1"
  proof -
    from that(3) have ne: "data t \<noteq> []" and tl: "tl (data t) = []"
      by (cases "data t"; auto)+
    show ?thesis
      using ne tl that by (simp add: tw_write_uniform Let_def)
  qed
  have none: "tw_write R t pfx = []" if "data t = []"
    using that by (simp add: tw_write_def)
  have nocols: "tw_write R t pfx = []" if "uniform t 0"
  proof (cases "data t = []")
    case True
    then show ?thesis by (rule none)
  next
    case False
    with that have "cols t = 0" by (rule cols_uniform)
    then show ?thesis by (simp add: tw_write_def)
  qed
  show ?thesis
    using many one none nocols by blast
qed

theorem table_layout_witness:
  "uniform tw_one_row 2 \<and> 2 \<le> length (data tw_one_row) \<and>
   calc_widths tw_one_row (cols tw_one_row) = [1, 2] \<and>
   tw_write (go_utc 0) tw_one_row ''  '' =
     ''  +---+----+\<newline>  | A | BB |\<newline>  +---+----+\<newline>  | X |  Y |\<newline>  +---+----+\<newline>'' \<and>
   length (layout (go_utc 0) tw_one_row 2) = 5 \<and>
   uniform tw_header_only 2 \<and> length (data tw_header_only) = 1 \<and>
   tw_write (go_utc 0) tw_header_only ''  '' =
     ''  +---+----+\<newline>  | A | BB |\<newline>  +---+----+\<newline>'' \<and>
   uniform \<lparr>data = [[], []]\<rparr> 0 \<and> tw_write (go_utc 0) \<lparr>data = [[], []]\<rparr> ''  '' = [] \<and>
   tw_write (go_utc 0) \<lparr>data = []\<rparr> ''  '' = []"
proof -
  have u1: "uniform tw_one_row 2" "uniform tw_header_only 2" "uniform \<lparr>data = [[], []]\<rparr> 0"
    by (simp_all add: uniform_def tw_examples)
  have l1: "2 \<le> length (data tw_one_row)" "length (data tw_header_only) = 1"
    by (simp_all add: tw_examples)
  have e1: "emit_lines ''  '' (layout (go_utc 0) tw_one_row 2) =
     ''  +---+----+\<newline>  | A | BB |\<newline>  +---+----+\<newline>  | X |  Y |\<newline>  +---+----+\<newline>''"
    by code_simp
  have e2: "emit_lines ''  ''
          [border (map (column_width tw_header_only) [0..<2]),
           cells (go_utc 0) (map (column_width tw_header_only) [0..<2]) (hd (data tw_header_only)),
           border (map (column_width tw_header_only) [0..<2])] =
     ''  +---+----+\<newline>  | A | BB |\<newline>  +---+----+\<newline>''"
    by code_simp
  have pos: "0 < (2::nat)" by simp
  from table_layout [of tw_one_row 2 "go_utc 0" "''  ''"] u1(1) l1(1) pos
  have A: "calc_widths tw_one_row (cols tw_one_row) = map (column_width tw_one_row) [0..<2] \<and>
      tw_write (go_utc 0) tw_one_row ''  '' = emit_lines ''  '' (layout (go_utc 0) tw_one_row 2) \<and>
      length (layout (go_utc 0) tw_one_row 2) = length (data tw_one_row) + 3"
    by blast
  from table_layout [of tw_header_only 2 "go_utc 0" "''  ''"] u1(2) l1(2) pos
  have B: "tw_write (go_utc 0) tw_header_only ''  '' =
      emit_lines ''  ''
          [border (map (column_width tw_header_only) [0..<2]),
           cells (go_utc 0) (map (column_width tw_header_only) [0..<2]) (hd (data tw_header_only)),
           border (map (column_width tw_header_only) [0..<2])]"
    by blast
  from table_layout [of "\<lparr>data = [[], []]\<rparr>" 0 "go_utc 0" "''  ''"] u1(3)
  have C: "tw_write (go_utc 0) \<lparr>data = [[], []]\<rparr> ''  '' = []"
    by blast
  from table_layout [of "\<lparr>data = []\<rparr>" 0 "go_utc 0" "''  ''"]
  have D: "tw_write (go_utc 0) \<lparr>data = []\<rparr> ''  '' = []"
    by simp
  show ?thesis
    using A [unfolded e1 column_width_examples] B [unfolded e2] C D u1 l1
    by (simp add: tw_examples)
qed

text \<open>
  C4 as stated fails for a table that holds its header only: \<open>write\<close> draws the
  separator before the second row, so three lines come out, not \<open>rows + 3\<close>.
\<close>

theorem table_header_only:
  "uniform tw_header_only 2 \<and>
   tw_write (go_utc 0) tw_header_only [] = ''+---+----+\<newline>| A | BB |\<newline>+---+----+\<newline>'' \<and>
   emit_lines [] (layout (go_utc 0) tw_header_only 2) =
     ''+---+----+\<newline>| A | BB |\<newline>+---+----+\<newline>+---+----+\<newline>'' \<and>
   tw_write (go_utc 0) tw_header_only [] \<noteq> emit_lines [] (layout (go_utc 0) tw_header_only 2) \<and>
   length (layout (go_utc 0) tw_header_only 2) = length (data tw_header_only) + 3"
proof -
  have u: "uniform tw_header_only 2"
    by (simp add: uniform_def tw_examples)
  have c: "cols tw_header_only = 2"
    by (simp add: cols_def tw_examples)
  have w: "calc_widths tw_header_only 2 = [1, 2]"
    by code_simp
  have a: "tw_write (go_utc 0) tw_header_only [] =
      ''+---+----+\<newline>| A | BB |\<newline>+---+----+\<newline>''"
    by code_simp
  have b: "emit_lines [] (layout (go_utc 0) tw_header_only 2) =
      ''+---+----+\<newline>| A | BB |\<newline>+---+----+\<newline>+---+----+\<newline>''"
    by code_simp
  have l: "length (layout (go_utc 0) tw_header_only 2) = length (data tw_header_only) + 3"
    by (simp add: layout_def tw_examples Let_def)
  show ?thesis
    unfolding a b using u l by simp
qed

section \<open>The order of the sections\<close>











section \<open>The clock\<close>


lemma fmtTimeAndSince_cong:
  "Now R1 = Now R2 \<Longrightarrow> RelTime R1 = RelTime R2 \<Longrightarrow> Format R1 = Format R2 \<Longrightarrow>
   fmtTimeAndSince R1 ts = fmtTimeAndSince R2 ts"
  by (simp add: fmtTimeAndSince_def)




section \<open>Ratios and percentages\<close>




section \<open>Unknown sizes\<close>







end
